theory Spec2Isabelle
  imports Complex_Main "HOL-Library.AList"
begin

section \<open>Strategy constructors of \<^verbatim>\<open>hypothesis/strategies.py\<close>\<close>

text \<open>
  The module builds strategy objects from user arguments. Building is pure: a
  constructor either returns a strategy object or raises. The model returns
  \<open>error + strategy\<close>, with \<open>Inl\<close> for the exception that leaves the call.
  No random source appears in any constructor, so a constructor that returns
  \<open>Inl\<close> has failed before anything is drawn.
\<close>

subsection \<open>Exceptions\<close>

datatype error =
    InvalidArgument
  | OverflowError
  | AssertionError
  | ZeroDivisionError
  | UnsatisfiedAssumption

definition and_then :: "error + 'a \<Rightarrow> ('a \<Rightarrow> error + 'b) \<Rightarrow> error + 'b" where
  \<comment> \<open>Sequencing of two statements: an exception of the first leaves the function.\<close>
  "and_then m f = (case m of Inl e \<Rightarrow> Inl e | Inr x \<Rightarrow> f x)"

subsection \<open>Python numbers\<close>

text \<open>
  A Python \<open>float\<close> is NaN, an infinity or a finite value. The finite values are
  carried as rationals (every double is one). Negative zero is not told apart from
  zero: the module only compares endpoints, and \<open>-0.0 == 0.0\<close>. Rounding of a
  finite result to 53 bits is not modelled; what is modelled is when a result leaves
  the finite range: under round-to-nearest-even a value of magnitude at least
  \<open>2^1024 - 2^970\<close> becomes an infinity.
\<close>

datatype pyfloat = NaN | NegInf | PosInf | Finite rat

definition overflow_threshold :: rat where
  "overflow_threshold = 2 ^ 1024 - 2 ^ 970"

definition representable :: "pyfloat \<Rightarrow> bool" where
  \<comment> \<open>The finite values lie strictly inside the overflow threshold.\<close>
  "representable f = (case f of Finite r \<Rightarrow> \<bar>r\<bar> < overflow_threshold | _ \<Rightarrow> True)"

definition float_round :: "rat \<Rightarrow> pyfloat" where
  "float_round r =
     (if overflow_threshold \<le> r then PosInf
      else if r \<le> - overflow_threshold then NegInf
      else Finite r)"

fun isnan :: "pyfloat \<Rightarrow> bool" where
  "isnan NaN = True"
| "isnan _ = False"

fun isinf :: "pyfloat \<Rightarrow> bool" where
  "isinf NegInf = True"
| "isinf PosInf = True"
| "isinf _ = False"

fun float_eq :: "pyfloat \<Rightarrow> pyfloat \<Rightarrow> bool" where
  "float_eq NaN _ = False"
| "float_eq _ NaN = False"
| "float_eq a b = (a = b)"

fun float_lt :: "pyfloat \<Rightarrow> pyfloat \<Rightarrow> bool" where
  "float_lt NaN _ = False"
| "float_lt _ NaN = False"
| "float_lt PosInf _ = False"
| "float_lt _ NegInf = False"
| "float_lt NegInf _ = True"
| "float_lt _ PosInf = True"
| "float_lt (Finite a) (Finite b) = (a < b)"

fun float_neg :: "pyfloat \<Rightarrow> pyfloat" where
  "float_neg NaN = NaN"
| "float_neg NegInf = PosInf"
| "float_neg PosInf = NegInf"
| "float_neg (Finite a) = Finite (- a)"

fun float_add :: "pyfloat \<Rightarrow> pyfloat \<Rightarrow> pyfloat" where
  "float_add NaN _ = NaN"
| "float_add _ NaN = NaN"
| "float_add PosInf NegInf = NaN"
| "float_add NegInf PosInf = NaN"
| "float_add PosInf _ = PosInf"
| "float_add NegInf _ = NegInf"
| "float_add _ PosInf = PosInf"
| "float_add _ NegInf = NegInf"
| "float_add (Finite a) (Finite b) = float_round (a + b)"

definition float_sub :: "pyfloat \<Rightarrow> pyfloat \<Rightarrow> pyfloat" where
  "float_sub a b = float_add a (float_neg b)"


text \<open>
  A number argument is an \<open>int\<close> (unbounded) or a \<open>float\<close>; \<open>None\<close> is the
  \<open>None\<close> of \<open>number option\<close>. Arguments that are neither numbers nor \<open>None\<close> are
  outside the model. Comparison of an \<open>int\<close> with a \<open>float\<close> is exact in Python;
  arithmetic converts the \<open>int\<close> first, which raises \<open>OverflowError\<close> when the
  \<open>int\<close> is beyond the finite range.
\<close>

datatype number = IntV int | FloatV pyfloat

fun as_float :: "number \<Rightarrow> pyfloat" where
  \<comment> \<open>The mathematical value, for comparisons.\<close>
  "as_float (IntV i) = Finite (of_int i)"
| "as_float (FloatV f) = f"


definition num_eq :: "number \<Rightarrow> number \<Rightarrow> bool" where
  "num_eq a b = float_eq (as_float a) (as_float b)"

definition num_lt :: "number \<Rightarrow> number \<Rightarrow> bool" where
  "num_lt a b = float_lt (as_float a) (as_float b)"

definition num_gt :: "number \<Rightarrow> number \<Rightarrow> bool" where
  "num_gt a b = num_lt b a"

definition num_le :: "number \<Rightarrow> number \<Rightarrow> bool" where
  "num_le a b = (num_lt a b \<or> num_eq a b)"





definition truthy :: "number \<Rightarrow> bool" where
  \<comment> \<open>Truth value of a number: every number but zero.\<close>
  "truthy a = (\<not> num_eq a (IntV 0))"

definition or_else :: "number option \<Rightarrow> number \<Rightarrow> number" where
  \<comment> \<open>\<open>a or b\<close> with \<open>a\<close> a number or \<open>None\<close>.\<close>
  "or_else a b = (case a of None \<Rightarrow> b | Some x \<Rightarrow> if truthy x then x else b)"


subsection \<open>Strategy objects\<close>

text \<open>
  The strategy classes (\<open>JustStrategy\<close>, \<open>OneOfStrategy\<close>, \<open>ListStrategy\<close>, ...)
  live in \<open>hypothesis.searchstrategy\<close>; this module only calls their constructors.
  A strategy object is the term of the constructor call that made it. A keyword
  argument that a call leaves out is \<open>Omitted\<close>: the class's default applies.
  The result of \<open>s.map(f)\<close> is \<open>MappedStrategy s f\<close> and of \<open>s.filter(p)\<close> is
  \<open>FilteredStrategy s p\<close>.
\<close>

datatype 'a kwarg = Omitted | Given 'a

datatype pyvalue = VNum number | VTuple "pyvalue list"

datatype pyfun =
    LambdaMaxMinus number
      \<comment> \<open>\<open>lambda x: max_value - x\<close> of \<open>integers\<close>\<close>
  | LambdaFraction
      \<comment> \<open>\<open>lambda t: Fraction(*t)\<close> of \<open>fractions\<close>\<close>
  | BuildDict "number option" "number option"
      \<comment> \<open>the closure \<open>build_dict\<close> of \<open>dictionaries\<close>, over \<open>min_size\<close> and \<open>max_size\<close>\<close>
  | LambdaLenAtLeast number
      \<comment> \<open>\<open>lambda x: len(x) >= min_size\<close> of \<open>sets\<close>\<close>

datatype strategy =
    JustStrategy pyvalue
  | OneOfStrategy "strategy list"
  | RandomGeometricIntStrategy
  | WideRangeIntStrategy
  | IntegersFromStrategy number "number kwarg"
  | BoundedIntStrategy number number
  | WrapperFloatStrategy strategy
  | GaussianFloatStrategy
  | BoundedFloatStrategy
  | ExponentialFloatStrategy
  | JustIntFloats
  | NastyFloats
  | FullRangeFloats
  | FixedBoundedFloatStrategy pyfloat pyfloat
  | FloatsFromBase pyfloat int
  | TupleStrategy "strategy list"
  | ListStrategy "strategy list" "number kwarg" "number kwarg" "number option kwarg"
  | SingleElementListStrategy strategy strategy
  | SetStrategy "strategy list" "number kwarg" "number option kwarg"
  | FixedKeysDictStrategy "(pyvalue \<times> strategy) list"
  | MappedStrategy strategy pyfun
  | FilteredStrategy strategy pyfun

text \<open>
  An argument in a strategy position: \<open>None\<close>, a strategy, or any other object.
\<close>

datatype pyarg = ArgNone | ArgStrategy strategy | ArgOther

text \<open>
  What the module reads from outside: the attribute \<open>template_upper_bound\<close> of a
  strategy object (an \<open>int\<close>, or the float infinity) and the setting
  \<open>Settings.default.average_list_length\<close>. Neither is defined in this module, so
  both are parameters.
\<close>

record env =
  template_upper_bound :: "strategy \<Rightarrow> number"
  average_list_length :: number

subsection \<open>Private API: the checks\<close>

text \<open>
  \<open>isinstance(arg, typ)\<close> is a downcast: \<open>typ arg\<close> is \<open>Some\<close> view of \<open>arg\<close> when
  \<open>arg\<close> is an instance.
\<close>

definition check_type :: "('a \<Rightarrow> 'b option) \<Rightarrow> 'a \<Rightarrow> error + 'b" where
  "check_type typ arg = (case typ arg of None \<Rightarrow> Inl InvalidArgument | Some x \<Rightarrow> Inr x)"

fun SearchStrategy :: "pyarg \<Rightarrow> strategy option" where
  "SearchStrategy (ArgStrategy s) = Some s"
| "SearchStrategy _ = None"

fun integer_types :: "number \<Rightarrow> int option" where
  "integer_types (IntV i) = Some i"
| "integer_types (FloatV _) = None"

definition number_types :: "number \<Rightarrow> number option" where
  \<comment> \<open>\<open>integer_types + (float,)\<close>\<close>
  "number_types v = Some v"

definition check_strategy :: "pyarg \<Rightarrow> error + strategy" where
  "check_strategy arg = check_type SearchStrategy arg"

fun check_strategies :: "pyarg list \<Rightarrow> error + strategy list" where
  \<comment> \<open>\<open>for arg in args: check_strategy(arg)\<close>\<close>
  "check_strategies [] = Inr []"
| "check_strategies (arg # args) =
     and_then (check_strategy arg) (\<lambda>s.
     and_then (check_strategies args) (\<lambda>ss. Inr (s # ss)))"

fun is_nan_float :: "number \<Rightarrow> bool" where
  \<comment> \<open>\<open>isinstance(value, float) and math.isnan(value)\<close>\<close>
  "is_nan_float (FloatV f) = isnan f"
| "is_nan_float (IntV _) = False"

definition check_valid_size :: "number option \<Rightarrow> string \<Rightarrow> error + unit" where
  "check_valid_size val name =
     (case val of
        None \<Rightarrow> Inr ()
      | Some v \<Rightarrow>
          and_then (check_type number_types v) (\<lambda>_.
          if num_lt v (IntV 0) then Inl InvalidArgument
          else if is_nan_float v then Inl InvalidArgument
          else Inr ()))"

definition lt_opt :: "number option \<Rightarrow> number option \<Rightarrow> bool" where
  \<comment> \<open>\<open>a is not None and b is not None and a < b\<close>\<close>
  "lt_opt a b = (case (a, b) of (Some x, Some y) \<Rightarrow> num_lt x y | _ \<Rightarrow> False)"

definition check_valid_sizes ::
  "number option \<Rightarrow> number option \<Rightarrow> number option \<Rightarrow> error + unit" where
  "check_valid_sizes min_size average_size max_size =
     and_then (check_valid_size min_size ''min_size'') (\<lambda>_.
     and_then (check_valid_size max_size ''max_size'') (\<lambda>_.
     and_then (check_valid_size average_size ''average_size'') (\<lambda>_.
     if lt_opt max_size min_size then Inl InvalidArgument
     else if lt_opt max_size average_size then Inl InvalidArgument
     else if lt_opt average_size min_size then Inl InvalidArgument
     else Inr ())))"

subsection \<open>Public API\<close>

definition just :: "pyvalue \<Rightarrow> strategy" where
  "just v = JustStrategy v"

definition one_of :: "pyarg \<Rightarrow> pyarg list \<Rightarrow> error + strategy" where
  "one_of arg args =
     (if args = [] then check_strategy arg
      else and_then (check_strategies (arg # args)) (\<lambda>ss. Inr (OneOfStrategy ss)))"

definition strategy_or :: "strategy \<Rightarrow> strategy \<Rightarrow> strategy" where
  \<comment> \<open>Modelled from the spec: the operator \<open>|\<close> of strategies (\<open>SearchStrategy.__or__\<close>)
      is not in this module. The spec says a union of strategies is their combination
      with \<open>one_of\<close>, which for two strategies is the \<open>OneOfStrategy\<close> of the pair.\<close>
  "strategy_or a b = OneOfStrategy [a, b]"

fun integers :: "number option \<Rightarrow> number option \<Rightarrow> error + strategy" where
  "integers None None =
     Inr (strategy_or RandomGeometricIntStrategy WideRangeIntStrategy)"
| "integers None (Some max_value) =
     and_then (check_type integer_types max_value) (\<lambda>_.
     Inr (MappedStrategy (IntegersFromStrategy (IntV 0) Omitted) (LambdaMaxMinus max_value)))"
| "integers (Some min_value) max_value =
     and_then (check_type integer_types min_value) (\<lambda>_.
     case max_value of
       None \<Rightarrow> Inr (IntegersFromStrategy min_value Omitted)
     | Some max_value \<Rightarrow>
         if num_eq min_value max_value then Inr (just (VNum min_value))
         else if num_gt min_value max_value then Inl InvalidArgument
         else Inr (BoundedIntStrategy min_value max_value))"

text \<open>
  The endpoints of \<open>floats\<close> are floats or \<open>None\<close>. Where the source passes the
  \<open>int\<close> literal \<open>0\<close> to itself, the model passes the float zero.
\<close>

fun nan_endpoint :: "pyfloat option \<Rightarrow> bool" where
  \<comment> \<open>\<open>e is not None and math.isnan(e)\<close>\<close>
  "nan_endpoint None = False"
| "nan_endpoint (Some e) = isnan e"

fun none_if :: "pyfloat \<Rightarrow> pyfloat option \<Rightarrow> pyfloat option" where
  \<comment> \<open>\<open>if v == float(inf): v = None\<close>\<close>
  "none_if bound None = None"
| "none_if bound (Some v) = (if float_eq v bound then None else Some v)"

function floats :: "pyfloat option \<Rightarrow> pyfloat option \<Rightarrow> error + strategy" where
  "floats min_value max_value =
     (if nan_endpoint min_value \<or> nan_endpoint max_value then Inl InvalidArgument
      else
        case none_if NegInf min_value of
          None \<Rightarrow>
            (case none_if PosInf max_value of
               None \<Rightarrow>
                 Inr (WrapperFloatStrategy
                   (strategy_or (strategy_or (strategy_or (strategy_or (strategy_or
                      GaussianFloatStrategy BoundedFloatStrategy) ExponentialFloatStrategy)
                      JustIntFloats) NastyFloats) FullRangeFloats))
             | Some mx \<Rightarrow>
                 Inr (strategy_or (FloatsFromBase mx (- 1)) (just (VNum (FloatV NegInf)))))
        | Some mn \<Rightarrow>
            (case none_if PosInf max_value of
               None \<Rightarrow>
                 Inr (strategy_or (FloatsFromBase mn 1) (just (VNum (FloatV PosInf))))
             | Some mx \<Rightarrow>
                 if float_lt mx mn then Inl InvalidArgument
                 else if float_eq mn mx then Inr (just (VNum (FloatV mn)))
                 else if isinf (float_sub mx mn) then
                   (if float_lt mn (Finite 0) \<and> float_lt (Finite 0) mx then
                      (case floats (Some (Finite 0)) (Some mx) of
                         Inl e \<Rightarrow> Inl e
                       | Inr a \<Rightarrow>
                           (case floats (Some mn) (Some (Finite 0)) of
                              Inl e \<Rightarrow> Inl e
                            | Inr b \<Rightarrow> Inr (strategy_or a b)))
                    else Inl AssertionError)
                 else Inr (FixedBoundedFloatStrategy mn mx)))"
  by pat_completeness auto
termination
proof (relation "measure (\<lambda>(mn, mx).
    if (case mn of Some a \<Rightarrow> float_lt a (Finite 0) | None \<Rightarrow> False) \<and>
       (case mx of Some b \<Rightarrow> float_lt (Finite 0) b | None \<Rightarrow> False) then 1 else 0)")
  show "wf (measure (\<lambda>(mn, mx).
    if (case mn of Some a \<Rightarrow> float_lt a (Finite 0) | None \<Rightarrow> False) \<and>
       (case mx of Some b \<Rightarrow> float_lt (Finite 0) b | None \<Rightarrow> False) then 1 else (0::nat)))"
    by simp
next
  fix min_value max_value :: "pyfloat option" and mn mx :: pyfloat
  assume "none_if NegInf min_value = Some mn" "none_if PosInf max_value = Some mx"
    and "float_lt mn (Finite 0) \<and> float_lt (Finite 0) mx"
  then show "((Some (Finite 0), Some mx), (min_value, max_value)) \<in> measure (\<lambda>(mn, mx).
    if (case mn of Some a \<Rightarrow> float_lt a (Finite 0) | None \<Rightarrow> False) \<and>
       (case mx of Some b \<Rightarrow> float_lt (Finite 0) b | None \<Rightarrow> False) then 1 else 0)"
    by (cases min_value; cases max_value) (auto split: if_splits)
next
  fix min_value max_value :: "pyfloat option" and mn mx :: pyfloat
  assume "none_if NegInf min_value = Some mn" "none_if PosInf max_value = Some mx"
    and "float_lt mn (Finite 0) \<and> float_lt (Finite 0) mx"
  then show "((Some mn, Some (Finite 0)), (min_value, max_value)) \<in> measure (\<lambda>(mn, mx).
    if (case mn of Some a \<Rightarrow> float_lt a (Finite 0) | None \<Rightarrow> False) \<and>
       (case mx of Some b \<Rightarrow> float_lt (Finite 0) b | None \<Rightarrow> False) then 1 else 0)"
    by (cases min_value; cases max_value) (auto split: if_splits)
qed

declare floats.simps [simp del]

definition tuples :: "pyarg list \<Rightarrow> error + strategy" where
  \<comment> \<open>\<open>TupleStrategy(args, tuple)\<close>: the tuple type is always the builtin one.\<close>
  "tuples args = and_then (check_strategies args) (\<lambda>ss. Inr (TupleStrategy ss))"





definition eq_zero :: "number option \<Rightarrow> bool" where
  \<comment> \<open>\<open>max_size == 0\<close>\<close>
  "eq_zero max_size = (case max_size of None \<Rightarrow> False | Some mx \<Rightarrow> num_eq mx (IntV 0))"


definition sets ::
  "env \<Rightarrow> pyarg \<Rightarrow> number option \<Rightarrow> number option \<Rightarrow> number option \<Rightarrow> error + strategy" where
  "sets env elements min_size average_size max_size =
     and_then (check_valid_sizes min_size average_size max_size) (\<lambda>_.
     if eq_zero max_size then Inr (SetStrategy [] Omitted Omitted)
     else
       and_then (check_strategy elements) (\<lambda>e.
       if (case min_size of
             None \<Rightarrow> False
           | Some mn \<Rightarrow> num_lt (template_upper_bound env e) mn)
       then Inl InvalidArgument
       else
         let result =
           SetStrategy [e]
             (Given (or_else average_size (average_list_length env))) (Given max_size)
         in Inr (case min_size of
                   None \<Rightarrow> result
                 | Some mn \<Rightarrow> FilteredStrategy result (LambdaLenAtLeast mn))))"






definition Fraction :: "int \<Rightarrow> int \<Rightarrow> error + rat" where
  \<comment> \<open>The constructor of \<open>fractions.Fraction\<close> on two integers.\<close>
  "Fraction numerator denominator =
     (if denominator = 0 then Inl ZeroDivisionError
      else Inr (Fract numerator denominator))"

definition fractions :: "error + strategy" where
  "fractions =
     and_then (integers None None) (\<lambda>numerators.
     and_then (integers (Some (IntV 1)) None) (\<lambda>denominators.
     and_then (tuples [ArgStrategy numerators, ArgStrategy denominators]) (\<lambda>pairs.
     Inr (MappedStrategy pairs LambdaFraction))))"

subsection \<open>What the documented strategies generate\<close>

text \<open>
  Modelled from the spec: the classes that draw and reify values are not in the
  sources. The rules state what the docstrings of this module and the spec say of
  the values a strategy generates: \<open>just\<close> only generates its value; \<open>integers\<close>
  generates integers, all at least \<open>min_value\<close> when it is given; \<open>one_of\<close>
  generates the values of any of its arguments; \<open>tuples\<close> generates a tuple of the
  length of its arguments, with the value at index \<open>i\<close> from argument \<open>i\<close>. The
  other classes have no rule, and nothing below reads the relation at them.
\<close>

inductive generates :: "strategy \<Rightarrow> pyvalue \<Rightarrow> bool" where
  gen_just: "generates (JustStrategy v) v"
| gen_geometric: "generates RandomGeometricIntStrategy (VNum (IntV i))"
| gen_wide: "generates WideRangeIntStrategy (VNum (IntV i))"
| gen_from: "num_le lower (IntV i) \<Longrightarrow> generates (IntegersFromStrategy lower k) (VNum (IntV i))"
| gen_one_of: "s \<in> set ss \<Longrightarrow> generates s v \<Longrightarrow> generates (OneOfStrategy ss) v"
| gen_tuple: "list_all2 generates ss vs \<Longrightarrow> generates (TupleStrategy ss) (VTuple vs)"

code_pred generates .

subsection \<open>A concrete environment\<close>

definition example_bound :: "strategy \<Rightarrow> number" where
  \<comment> \<open>Modelled from the spec: \<open>template_upper_bound\<close> is an attribute of the strategy
      classes, which are not in the sources. A strategy that only generates one value
      has one template; every other strategy is given the float infinity here, the
      bound of a strategy that reports none.\<close>
  "example_bound s = (case s of JustStrategy _ \<Rightarrow> IntV 1 | _ \<Rightarrow> FloatV PosInf)"

definition example_env :: env where
  \<comment> \<open>The environment of the worked examples; the list length setting is 25.0.\<close>
  "example_env =
     \<lparr>template_upper_bound = example_bound, average_list_length = FloatV (Finite 25)\<rparr>"

subsection \<open>Sizes that the spec calls invalid\<close>



section \<open>Properties\<close>

subsection \<open>Sequencing and the checks\<close>

lemma and_then_Inr [simp]: "and_then (Inr x) f = f x"
  by (simp add: and_then_def)

lemma and_then_Inl [simp]: "and_then (Inl e) f = Inl e"
  by (simp add: and_then_def)

lemma check_strategy_strategy [simp]: "check_strategy (ArgStrategy s) = Inr s"
  by (simp add: check_strategy_def check_type_def)

lemma check_strategies_map: "check_strategies (map ArgStrategy ss) = Inr ss"
  by (induction ss) simp_all

lemma num_eq_int [simp]: "num_eq (IntV a) (IntV b) = (a = b)"
  by (simp add: num_eq_def)






subsection \<open>one\_of\<close>

text \<open>
  C9. \<open>one_of\<close> applied to exactly one strategy returns that strategy itself, with
  no wrapper; applied to a strategy and at least one more strategy it returns the
  \<open>OneOfStrategy\<close> over all of them, in the order given.
\<close>

theorem one_of_single_or_union:
  "one_of (ArgStrategy s) [] = Inr s \<and>
   (ss \<noteq> [] \<longrightarrow>
      one_of (ArgStrategy s) (map ArgStrategy ss) = Inr (OneOfStrategy (s # ss)))"
  using check_strategies_map [of "s # ss"] by (simp add: one_of_def)

theorem one_of_single_or_union_witness:
  "one_of (ArgStrategy (JustStrategy (VNum (IntV 1)))) [] = Inr (JustStrategy (VNum (IntV 1))) \<and>
   one_of (ArgStrategy RandomGeometricIntStrategy)
     (map ArgStrategy [WideRangeIntStrategy, JustStrategy (VNum (IntV 1))])
     = Inr (OneOfStrategy
         [RandomGeometricIntStrategy, WideRangeIntStrategy, JustStrategy (VNum (IntV 1))])"
  using one_of_single_or_union [of "JustStrategy (VNum (IntV 1))" "[]"]
    one_of_single_or_union [of RandomGeometricIntStrategy
      "[WideRangeIntStrategy, JustStrategy (VNum (IntV 1))]"]
  by simp

subsection \<open>integers\<close>

text \<open>
  C6. \<open>integers()\<close> with neither bound returns the union of the geometric-decay
  strategy and the wide-range strategy, in that order: the \<open>OneOfStrategy\<close> of the
  two, which is what \<open>one_of\<close> returns on them.
\<close>

theorem integers_unbounded:
  "integers None None = Inr (OneOfStrategy [RandomGeometricIntStrategy, WideRangeIntStrategy]) \<and>
   integers None None
     = one_of (ArgStrategy RandomGeometricIntStrategy) [ArgStrategy WideRangeIntStrategy]"
  by (simp add: strategy_or_def one_of_def)

text \<open>
  C3. For every integer \<open>v\<close>, \<open>integers(min_value=v, max_value=v)\<close> returns
  \<open>just(v)\<close>, and every value that strategy generates is \<open>v\<close>.
\<close>

theorem integers_degenerate:
  "integers (Some (IntV v)) (Some (IntV v)) = Inr (just (VNum (IntV v))) \<and>
   (\<forall>x. generates (just (VNum (IntV v))) x \<longrightarrow> x = VNum (IntV v))"
  by (auto simp: check_type_def just_def elim: generates.cases)

theorem integers_degenerate_witness:
  "integers (Some (IntV 3)) (Some (IntV 3)) = Inr (just (VNum (IntV 3))) \<and>
   generates (just (VNum (IntV 3))) (VNum (IntV 3))"
  using integers_degenerate [of 3] by (simp add: just_def gen_just)

subsection \<open>floats\<close>

text \<open>
  C4. \<open>floats\<close> raises \<open>InvalidArgument\<close> whenever one of its endpoints is NaN,
  whatever the other endpoint is. The check is the first statement of the function.
\<close>

theorem floats_nan_rejected:
  "min_value = Some NaN \<or> max_value = Some NaN \<Longrightarrow>
   floats min_value max_value = Inl InvalidArgument"
  by (cases min_value; cases max_value) (auto simp: floats.simps)

theorem floats_nan_rejected_witness:
  "floats (Some NaN) (Some (Finite 1)) = Inl InvalidArgument \<and>
   floats None (Some NaN) = Inl InvalidArgument"
  using floats_nan_rejected [of "Some NaN" "Some (Finite 1)"]
    floats_nan_rejected [of None "Some NaN"]
  by simp

lemma isinf_float_round:
  "isinf (float_round r) = (overflow_threshold \<le> r \<or> r \<le> - overflow_threshold)"
  by (simp add: float_round_def)

lemma isinf_float_sub_Finite:
  "isinf (float_sub (Finite b) (Finite a)) =
     (overflow_threshold \<le> b - a \<or> b - a \<le> - overflow_threshold)"
  by (simp add: float_sub_def isinf_float_round)

lemma floats_bounded_finite:
  assumes "a < b" and "\<not> isinf (float_sub (Finite b) (Finite a))"
  shows "floats (Some (Finite a)) (Some (Finite b))
           = Inr (FixedBoundedFloatStrategy (Finite a) (Finite b))"
  using assms by (subst floats.simps) simp

text \<open>
  C5. For finite floats \<open>a < 0 < b\<close> whose difference \<open>b - a\<close> overflows to
  infinity, \<open>floats(a, b)\<close> is \<open>floats(0, b) | floats(a, 0)\<close>, in that order. Each
  half is itself a bounded range ending at zero: its own width is finite.
\<close>

theorem floats_infinite_width_split:
  assumes "representable (Finite a)" and "representable (Finite b)"
    and "a < 0" and "0 < b"
    and "isinf (float_sub (Finite b) (Finite a))"
  shows "(\<exists>upper lower.
            floats (Some (Finite 0)) (Some (Finite b)) = Inr upper \<and>
            floats (Some (Finite a)) (Some (Finite 0)) = Inr lower \<and>
            floats (Some (Finite a)) (Some (Finite b)) = Inr (strategy_or upper lower)) \<and>
         floats (Some (Finite 0)) (Some (Finite b))
           = Inr (FixedBoundedFloatStrategy (Finite 0) (Finite b)) \<and>
         floats (Some (Finite a)) (Some (Finite 0))
           = Inr (FixedBoundedFloatStrategy (Finite a) (Finite 0))"
proof -
  have upper: "floats (Some (Finite 0)) (Some (Finite b))
      = Inr (FixedBoundedFloatStrategy (Finite 0) (Finite b))"
    using assms(2,4)
    by (intro floats_bounded_finite) (auto simp: isinf_float_sub_Finite representable_def)
  have lower: "floats (Some (Finite a)) (Some (Finite 0))
      = Inr (FixedBoundedFloatStrategy (Finite a) (Finite 0))"
    using assms(1,3)
    by (intro floats_bounded_finite) (auto simp: isinf_float_sub_Finite representable_def)
  have whole: "floats (Some (Finite a)) (Some (Finite b)) =
      Inr (strategy_or (FixedBoundedFloatStrategy (Finite 0) (Finite b))
                       (FixedBoundedFloatStrategy (Finite a) (Finite 0)))"
    using assms(3,4,5) by (subst floats.simps) (simp add: upper lower)
  from upper lower whole show ?thesis by simp
qed

theorem floats_infinite_width_split_witness:
  "floats (Some (Finite (- (2 ^ 1023)))) (Some (Finite (2 ^ 1023))) =
      Inr (strategy_or (FixedBoundedFloatStrategy (Finite 0) (Finite (2 ^ 1023)))
                       (FixedBoundedFloatStrategy (Finite (- (2 ^ 1023))) (Finite 0)))"
proof -
  have r: "representable (Finite (- (2 ^ 1023)))" "representable (Finite (2 ^ 1023))"
    by (simp_all add: representable_def overflow_threshold_def)
  have i: "isinf (float_sub (Finite (2 ^ 1023)) (Finite (- (2 ^ 1023))))"
    by (simp add: isinf_float_sub_Finite overflow_threshold_def)
  have n: "- (2 ^ 1023) < (0::rat)" "(0::rat) < 2 ^ 1023"
    by simp_all
  from floats_infinite_width_split [OF r n i] show ?thesis
    by (elim conjE exE) simp
qed

subsection \<open>sets\<close>

text \<open>
  C2. For every element strategy \<open>e\<close> and every integer \<open>k\<close>, \<open>sets(e, min_size=k)\<close>
  raises \<open>InvalidArgument\<close> when the template upper bound of \<open>e\<close> is below \<open>k\<close>.
\<close>

theorem sets_min_size_exceeds_bound:
  "num_lt (template_upper_bound env e) (IntV k) \<Longrightarrow>
   sets env (ArgStrategy e) (Some (IntV k)) None None = Inl InvalidArgument"
  by (simp add: sets_def check_valid_sizes_def check_valid_size_def check_type_def
      number_types_def lt_opt_def eq_zero_def)

theorem sets_min_size_exceeds_bound_witness:
  "num_lt (template_upper_bound example_env (JustStrategy (VNum (IntV 7)))) (IntV 2) \<and>
   sets example_env (ArgStrategy (JustStrategy (VNum (IntV 7)))) (Some (IntV 2)) None None
     = Inl InvalidArgument"
proof -
  have h: "num_lt (template_upper_bound example_env (JustStrategy (VNum (IntV 7)))) (IntV 2)"
    by (simp add: example_env_def example_bound_def num_lt_def)
  show ?thesis
    using h sets_min_size_exceeds_bound [OF h] by simp
qed

subsection \<open>Invalid bounds\<close>





subsection \<open>dictionaries\<close>























subsection \<open>lists\<close>













subsection \<open>fractions\<close>

inductive_cases generates_tupleE: "generates (TupleStrategy ss) t"
inductive_cases generates_one_ofE: "generates (OneOfStrategy ss) v"
inductive_cases generates_fromE: "generates (IntegersFromStrategy lower k) v"
inductive_cases generates_geometricE: "generates RandomGeometricIntStrategy v"
inductive_cases generates_wideE: "generates WideRangeIntStrategy v"

lemma generates_unbounded_int:
  "generates (OneOfStrategy [RandomGeometricIntStrategy, WideRangeIntStrategy]) v \<Longrightarrow>
   \<exists>n. v = VNum (IntV n)"
  by (auto elim!: generates_one_ofE generates_geometricE generates_wideE)

lemma generates_from_one:
  "generates (IntegersFromStrategy (IntV 1) k) v \<Longrightarrow> \<exists>d. v = VNum (IntV d) \<and> 1 \<le> d"
  by (auto elim!: generates_fromE simp: num_le_def num_lt_def)

lemma generates_pair:
  "generates (TupleStrategy [a, b]) t \<Longrightarrow>
   \<exists>x y. t = VTuple [x, y] \<and> generates a x \<and> generates b y"
  by (auto elim!: generates_tupleE simp: list_all2_Cons1)

text \<open>
  C10. \<open>fractions()\<close> maps \<open>Fraction(*t)\<close> over the tuples of \<open>integers()\<close> and
  \<open>integers(min_value=1)\<close>. Every tuple that strategy generates is a pair of
  integers whose second component is at least one, so \<open>Fraction\<close> returns a value
  on it and does not raise \<open>ZeroDivisionError\<close>.
\<close>

theorem fractions_denominator_positive:
  "fractions = Inr (MappedStrategy
      (TupleStrategy [OneOfStrategy [RandomGeometricIntStrategy, WideRangeIntStrategy],
                     IntegersFromStrategy (IntV 1) Omitted])
      LambdaFraction) \<and>
   integers (Some (IntV 1)) None = Inr (IntegersFromStrategy (IntV 1) Omitted) \<and>
   (\<forall>t. generates
          (TupleStrategy [OneOfStrategy [RandomGeometricIntStrategy, WideRangeIntStrategy],
                         IntegersFromStrategy (IntV 1) Omitted]) t \<longrightarrow>
        (\<exists>n d. t = VTuple [VNum (IntV n), VNum (IntV d)] \<and> 1 \<le> d \<and>
               Fraction n d = Inr (Fract n d)))"
proof (intro conjI allI impI)
  show "fractions = Inr (MappedStrategy
      (TupleStrategy [OneOfStrategy [RandomGeometricIntStrategy, WideRangeIntStrategy],
                     IntegersFromStrategy (IntV 1) Omitted])
      LambdaFraction)"
    by (simp add: fractions_def strategy_or_def check_type_def tuples_def)
next
  show "integers (Some (IntV 1)) None = Inr (IntegersFromStrategy (IntV 1) Omitted)"
    by (simp add: check_type_def)
next
  fix t
  assume "generates
          (TupleStrategy [OneOfStrategy [RandomGeometricIntStrategy, WideRangeIntStrategy],
                         IntegersFromStrategy (IntV 1) Omitted]) t"
  then obtain x y where t: "t = VTuple [x, y]"
    and x: "generates (OneOfStrategy [RandomGeometricIntStrategy, WideRangeIntStrategy]) x"
    and y: "generates (IntegersFromStrategy (IntV 1) Omitted) y"
    by (auto dest: generates_pair)
  from x obtain n where n: "x = VNum (IntV n)"
    by (auto dest: generates_unbounded_int)
  from y obtain d where d: "y = VNum (IntV d)" "1 \<le> d"
    by (auto dest: generates_from_one)
  from t n d show "\<exists>n d. t = VTuple [VNum (IntV n), VNum (IntV d)] \<and> 1 \<le> d \<and>
               Fraction n d = Inr (Fract n d)"
    by (auto simp: Fraction_def)
qed

lemma generates_pair_ex:
  "generates
     (TupleStrategy [OneOfStrategy [RandomGeometricIntStrategy, WideRangeIntStrategy],
                    IntegersFromStrategy (IntV 1) Omitted])
     (VTuple [VNum (IntV 3), VNum (IntV 4)])"
  by (intro gen_tuple) (auto intro: gen_one_of gen_geometric gen_from simp: num_le_def num_lt_def)

theorem fractions_denominator_positive_witness:
  "generates
     (TupleStrategy [OneOfStrategy [RandomGeometricIntStrategy, WideRangeIntStrategy],
                    IntegersFromStrategy (IntV 1) Omitted])
     (VTuple [VNum (IntV 3), VNum (IntV 4)]) \<and>
   Fraction 3 4 = Inr (Fract 3 4)"
proof -
  from fractions_denominator_positive generates_pair_ex
  have "\<exists>n d. VTuple [VNum (IntV 3), VNum (IntV 4)] = VTuple [VNum (IntV n), VNum (IntV d)] \<and>
          1 \<le> d \<and> Fraction n d = Inr (Fract n d)"
    by blast
  then have "Fraction 3 4 = Inr (Fract 3 4)"
    by auto
  with generates_pair_ex show ?thesis
    by (intro conjI)
qed

end
